theory Spec2Isabelle
  imports
    Complex_Main
    "HOL-Library.List_Lexorder"
    "HOL-Library.Char_ord"
    "HOL-Library.Product_Lexorder"
begin

section \<open>The price and volume dashboard (app_preco_volume.py)\<close>

text \<open>
  The program is one Streamlit script over one PostgreSQL table, \<open>cotahist_hist\<close>: three
  read queries (\<open>lista_tickers\<close>, \<open>get_date_bounds\<close>, \<open>load_data\<close>), a date formatter
  (\<open>formatar_data_ptbr\<close>) and the construction of a Plotly figure with two y-axes.

  The embedding keeps the SQL texts as strings, character by character, and gives each of
  them the meaning the PostgreSQL server gives it, as a function on the rows of the table.
  The data store is explicit state: the rows, whether the server can be reached, and the
  list of the statements that \<open>pd.read_sql\<close> was given to run on it.

  Each of the three query functions is written twice. The definition with the name of the
  function (\<open>load_data\<close>, \<open>lista_tickers\<close>, \<open>get_date_bounds\<close>) is the body under the
  \<open>def\<close>, which is what a call runs when Streamlit holds no fresh result for its arguments.
  The definition with the prefix \<open>cached\<close> is the function as the script calls it, under
  its decorator \<open>@st.cache_data(ttl=...)\<close>, with the memo of the decorator and the time of
  the call as explicit state and input.

  A Python \<open>str\<close> is a sequence of code points. Every character the script uses lies below
  256, so a \<open>char\<close> stands for one code point; the letters beyond ASCII are written by their
  code (\<open>CHR 0xE7\<close> is c with cedilla).
\<close>

subsection \<open>Characters and decimal numerals\<close>

definition nl :: char where
  "nl = CHR 0x0A"

definition apostrophe :: char where
  "apostrophe = CHR 0x27"

definition backslash :: char where
  "backslash = CHR 0x5C"

definition is_upper :: "char \<Rightarrow> bool" where
  "is_upper c \<longleftrightarrow> CHR ''A'' \<le> c \<and> c \<le> CHR ''Z''"

definition is_digit :: "char \<Rightarrow> bool" where
  "is_digit c \<longleftrightarrow> CHR ''0'' \<le> c \<and> c \<le> CHR ''9''"

definition is_lower :: "char \<Rightarrow> bool" where
  "is_lower c \<longleftrightarrow> CHR ''a'' \<le> c \<and> c \<le> CHR ''z''"

definition is_word_char :: "char \<Rightarrow> bool" where
  "is_word_char c \<longleftrightarrow> is_upper c \<or> is_lower c \<or> is_digit c \<or> c = CHR ''_''"

definition to_lower :: "char \<Rightarrow> char" where
  "to_lower c = (if is_upper c then char_of (of_char c + (32::nat)) else c)"

definition digit_char :: "nat \<Rightarrow> char" where
  "digit_char n = char_of (48 + n)"

text \<open>Python's \<open>str(n)\<close> for a non-negative integer, as the f-strings of the script use it.\<close>

fun str_nat :: "nat \<Rightarrow> string" where
  "str_nat n = (if n < 10 then [digit_char n] else str_nat (n div 10) @ [digit_char (n mod 10)])"

declare str_nat.simps [simp del]

subsection \<open>Dates\<close>

text \<open>
  A \<open>datetime.date\<close> and a \<open>pd.Timestamp\<close> at midnight are a year, a month and a day. Python
  and PostgreSQL both compare dates in this order, which is the lexicographic order of the
  triple. The ordinal and the weekday follow Python's \<open>date.toordinal\<close> and \<open>date.weekday\<close>
  (Monday is 0).
\<close>

type_synonym date = "nat \<times> nat \<times> nat"

fun year :: "date \<Rightarrow> nat" where
  "year (y, m, d) = y"

fun month :: "date \<Rightarrow> nat" where
  "month (y, m, d) = m"

fun day :: "date \<Rightarrow> nat" where
  "day (y, m, d) = d"

definition is_leap :: "nat \<Rightarrow> bool" where
  "is_leap y \<longleftrightarrow> y mod 4 = 0 \<and> (y mod 100 \<noteq> 0 \<or> y mod 400 = 0)"

definition days_in_month :: "nat \<Rightarrow> nat \<Rightarrow> nat" where
  "days_in_month y m =
     (if m = 2 then (if is_leap y then 29 else 28)
      else if m = 4 \<or> m = 6 \<or> m = 9 \<or> m = 11 then 30 else 31)"

definition valid_date :: "date \<Rightarrow> bool" where
  "valid_date dt \<longleftrightarrow>
     1 \<le> year dt \<and> year dt \<le> 9999 \<and> 1 \<le> month dt \<and> month dt \<le> 12 \<and>
     1 \<le> day dt \<and> day dt \<le> days_in_month (year dt) (month dt)"

definition days_before_year :: "nat \<Rightarrow> int" where
  "days_before_year y = (let p = int y - 1 in p * 365 + p div 4 - p div 100 + p div 400)"

definition days_before_month :: "nat \<Rightarrow> nat \<Rightarrow> int" where
  "days_before_month y m = int (sum_list (map (days_in_month y) [1..<m]))"

definition toordinal :: "date \<Rightarrow> int" where
  "toordinal dt = days_before_year (year dt) + days_before_month (year dt) (month dt) + int (day dt)"

definition weekday :: "date \<Rightarrow> nat" where
  "weekday dt = nat ((toordinal dt + 6) mod 7)"

text \<open>
  The day before, that is \<open>dt - timedelta(days=1)\<close>, and the date \<open>n\<close> days before.
\<close>

definition prev_day :: "date \<Rightarrow> date" where
  "prev_day dt =
     (if 1 < day dt then (year dt, month dt, day dt - 1)
      else if 1 < month dt then (year dt, month dt - 1, days_in_month (year dt) (month dt - 1))
      else (year dt - 1, 12, 31))"

fun days_back :: "nat \<Rightarrow> date \<Rightarrow> date" where
  "days_back 0 dt = dt"
| "days_back (Suc n) dt = days_back n (prev_day dt)"

subsection \<open>The data store\<close>

text \<open>
  One row of \<open>cotahist_hist\<close> with the four columns the script reads. Prices are exact
  decimals (\<open>rat\<close>). The columns are taken to hold no NULL.

  \<open>issued\<close> lists the calls of \<open>pd.read_sql\<close> that ran on the server, each as the text and
  the parameters that the script handed over. What travels to the server is made from them
  by pandas and the driver and is not modelled: before a text given as a plain string
  pandas asks the server whether the text is the name of a table, and psycopg2 writes the
  values of the parameters, quoted, into the text it sends.
\<close>

record row =
  codneg :: string
  data_operacao :: date
  preco_fechamento :: rat
  volume :: int

datatype param = PText string | PDate date

type_synonym statement = "string \<times> (string \<times> param) list"

record store =
  reachable :: bool
  cotahist_hist :: "row list"
  issued :: "statement list"

text \<open>
  The exceptions that can leave the script: those of SQLAlchemy that the store model
  raises (no connection; a statement without its parameters; a \<open>DATE_TRUNC\<close> field the server
  does not know; a field it knows and does not truncate by), and Python's own for a list
  index or a dictionary key that does not exist.

  \<open>OtherStatement\<close> is not an exception. It marks a text that is none of the three
  statements of the script, as when the field pasted into the series query ends the SQL
  literal: the server runs such a text as whatever SQL it is, and the model does not say
  what comes of it.
\<close>

datatype error =
  OperationalError | ProgrammingError | DataError | NotSupportedError | IndexError | KeyError |
  OtherStatement string

text \<open>
  \<open>pd.read_sql(sql, engine, params)\<close>: when the server cannot be reached the call raises and
  nothing runs on the store; otherwise the statement runs (and is recorded in \<open>issued\<close>)
  and the server's answer, rows or an error, is the result.
\<close>

definition read_sql ::
  "statement \<Rightarrow> (row list \<Rightarrow> error + 'a) \<Rightarrow> store \<Rightarrow> (error + 'a) \<times> store" where
  "read_sql stmt run db =
     (if reachable db
      then (run (cotahist_hist db), db\<lparr>issued := issued db @ [stmt]\<rparr>)
      else (Inl OperationalError, db))"

subsection \<open>PostgreSQL's DATE_TRUNC\<close>

text \<open>
  The engine is created from \<open>PGURI\<close> and the script maps its frequencies to "valores do
  PostgreSQL". The server reads the first argument of \<open>DATE_TRUNC\<close> with \<open>DecodeUnits\<close>: the
  text is lower-cased, compared on its first ten characters, and looked up in the server's
  table of unit names (\<open>deltatktbl\<close> in \<open>datetime.c\<close>), which holds the full names, their
  plurals and short forms. In that table the one-letter names are \<open>d\<close> for day, \<open>w\<close> for week,
  \<open>h\<close> for hour, \<open>s\<close> for second, \<open>y\<close> for year, \<open>c\<close> for century and \<open>m\<close> for minute; the
  short forms of month are \<open>mon\<close> and \<open>mons\<close>. A text that is not in the table is rejected
  with an error.
\<close>

datatype unit_name =
  Microsecond | Millisecond | Second | Minute | Hour | Day | Week | Month | Quarter |
  Year | Decade | Century | Millennium

definition deltatktbl :: "(string \<times> unit_name) list" where
  "deltatktbl =
     [(''c'', Century), (''cent'', Century), (''centuries'', Century), (''century'', Century),
      (''d'', Day), (''day'', Day), (''days'', Day),
      (''dec'', Decade), (''decade'', Decade), (''decades'', Decade), (''decs'', Decade),
      (''h'', Hour), (''hour'', Hour), (''hours'', Hour), (''hr'', Hour), (''hrs'', Hour),
      (''m'', Minute),
      (''microsecon'', Microsecond),
      (''mil'', Millennium), (''millennia'', Millennium), (''millennium'', Millennium),
      (''millisecon'', Millisecond),
      (''mils'', Millennium),
      (''min'', Minute), (''mins'', Minute), (''minute'', Minute), (''minutes'', Minute),
      (''mon'', Month), (''mons'', Month), (''month'', Month), (''months'', Month),
      (''ms'', Millisecond), (''msec'', Millisecond), (''msecond'', Millisecond),
      (''mseconds'', Millisecond), (''msecs'', Millisecond),
      (''qtr'', Quarter), (''quarter'', Quarter),
      (''s'', Second), (''sec'', Second), (''second'', Second), (''seconds'', Second),
      (''secs'', Second),
      (''us'', Microsecond), (''usec'', Microsecond), (''usecond'', Microsecond),
      (''useconds'', Microsecond), (''usecs'', Microsecond),
      (''w'', Week), (''week'', Week), (''weeks'', Week),
      (''y'', Year), (''year'', Year), (''years'', Year), (''yr'', Year), (''yrs'', Year)]"

definition decode_units :: "string \<Rightarrow> unit_name option" where
  "decode_units field = map_of deltatktbl (take 10 (map to_lower field))"

text \<open>
  The table also names the three time zone units; \<open>DATE_TRUNC\<close> finds them and refuses
  them as not supported.
\<close>

definition timezone_units :: "string list" where
  "timezone_units = [''timezone'', ''timezone_h'', ''timezone_m'']"

text \<open>
  The start of the week is the Monday on or before the date. A date is a timestamp at
  midnight, so truncation to a unit of a day or less leaves it as it is.
\<close>

definition week_start :: "date \<Rightarrow> date" where
  "week_start dt = days_back (weekday dt) dt"

fun date_trunc :: "unit_name \<Rightarrow> date \<Rightarrow> date" where
  "date_trunc Week dt = week_start dt"
| "date_trunc Month dt = (year dt, month dt, 1)"
| "date_trunc Quarter dt = (year dt, 3 * ((month dt - 1) div 3) + 1, 1)"
| "date_trunc Year dt = (year dt, 1, 1)"
| "date_trunc Decade dt = ((year dt div 10) * 10, 1, 1)"
| "date_trunc Century dt = (((year dt + 99) div 100) * 100 - 99, 1, 1)"
| "date_trunc Millennium dt = (((year dt + 999) div 1000) * 1000 - 999, 1, 1)"
| "date_trunc u dt = dt"

subsection \<open>The series query (load_data)\<close>

text \<open>
  The text of the statement, as the f-string builds it: \<open>freq\<close> is pasted between the
  apostrophes of the \<open>DATE_TRUNC\<close> field; the ticker and the two dates are the bind
  parameters \<open>:t\<close>, \<open>:ini\<close> and \<open>:fim\<close>.
\<close>

definition series_prefix :: string where
  "series_prefix =
     [nl] @ ''        SELECT '' @ [nl] @
     ''            DATE_TRUNC('' @ [apostrophe]"

definition series_suffix :: string where
  "series_suffix =
     [apostrophe] @ '', data_operacao) AS data_agregada,'' @ [nl] @
     ''            AVG(preco_fechamento) AS preco,'' @ [nl] @
     ''            SUM(volume) AS volume'' @ [nl] @
     ''        FROM cotahist_hist'' @ [nl] @
     ''        WHERE codneg = :t'' @ [nl] @
     ''          AND data_operacao BETWEEN :ini AND :fim'' @ [nl] @
     ''        GROUP BY data_agregada'' @ [nl] @
     ''        ORDER BY data_agregada'' @ [nl] @
     ''    ''"

definition series_sql :: "string \<Rightarrow> string" where
  "series_sql freq = series_prefix @ freq @ series_suffix"

text \<open>
  One row of the DataFrame that \<open>load_data\<close> returns, with the columns named as after the
  \<open>rename\<close>: \<open>data_operacao\<close>, \<open>preco\<close>, \<open>volume\<close>. The record holds the values as the
  server computes them: the date of the group, the exact mean and the exact sum. In the
  DataFrame pandas stores the mean and the sum as the \<open>float64\<close> nearest to them, and the
  date as the timestamp of its midnight with the time zone of the session; the rounding and
  the time zone are not modelled.
\<close>

record point =
  df_data_operacao :: date
  df_preco :: rat
  df_volume :: int

text \<open>
  What the statement computes on the rows, for a field the server decoded to the unit
  \<open>u\<close>: the rows of the ticker inside \<open>BETWEEN :ini AND :fim\<close>, grouped by the truncated
  date, one output row per group in ascending order of the group's date, with \<open>AVG\<close> of the
  price and \<open>SUM\<close> of the volume. \<open>AVG\<close> divides by the number of rows of the group, and a
  group has at least one row (lemma \<open>bucket_rows_nonempty\<close>).
\<close>

definition selected :: "string \<Rightarrow> date \<Rightarrow> date \<Rightarrow> row list \<Rightarrow> row list" where
  "selected t ini fim rows =
     filter (\<lambda>r. codneg r = t \<and> ini \<le> data_operacao r \<and> data_operacao r \<le> fim) rows"

definition bucket_rows :: "unit_name \<Rightarrow> date \<Rightarrow> row list \<Rightarrow> row list" where
  "bucket_rows u k rs = filter (\<lambda>r. date_trunc u (data_operacao r) = k) rs"

definition sql_avg :: "rat list \<Rightarrow> rat" where
  "sql_avg xs = sum_list xs / of_nat (length xs)"

definition aggregate :: "unit_name \<Rightarrow> row list \<Rightarrow> date \<Rightarrow> point" where
  "aggregate u rs k =
     \<lparr>df_data_operacao = k,
      df_preco = sql_avg (map preco_fechamento (bucket_rows u k rs)),
      df_volume = sum_list (map volume (bucket_rows u k rs))\<rparr>"

definition series_query :: "unit_name \<Rightarrow> string \<Rightarrow> date \<Rightarrow> date \<Rightarrow> row list \<Rightarrow> point list" where
  "series_query u t ini fim rows =
     (let rs = selected t ini fim rows
      in map (aggregate u rs) (sort (remdups (map (\<lambda>r. date_trunc u (data_operacao r)) rs))))"

text \<open>
  The server's side of the call: it receives the text and the parameters, and nothing else.
  The field is the text between the fixed beginning and the fixed end of the statement.
  The text is the series query, with the field as one SQL literal, when the field is made
  of letters, digits and underscores only. With any other character in the field (an
  apostrophe ends the literal, a colon starts a bind parameter) the text may be another
  statement, and the answer is \<open>OtherStatement\<close>.
\<close>

definition field_of :: "string \<Rightarrow> string option" where
  "field_of sql =
     (let n = length series_prefix; m = length series_suffix
      in if n + m \<le> length sql \<and> take n sql = series_prefix \<and>
            drop (length sql - m) sql = series_suffix
         then Some (take (length sql - n - m) (drop n sql))
         else None)"

definition run_series :: "statement \<Rightarrow> row list \<Rightarrow> error + point list" where
  "run_series stmt rows =
     (case field_of (fst stmt) of
        None \<Rightarrow> Inl (OtherStatement (fst stmt))
      | Some field \<Rightarrow>
          if \<not> list_all is_word_char field then Inl (OtherStatement (fst stmt))
          else
            (case (map_of (snd stmt) ''t'', map_of (snd stmt) ''ini'', map_of (snd stmt) ''fim'') of
               (Some (PText t), Some (PDate ini), Some (PDate fim)) \<Rightarrow>
                 (case decode_units field of
                    None \<Rightarrow>
                      if take 10 (map to_lower field) \<in> set timezone_units
                      then Inl NotSupportedError else Inl DataError
                  | Some u \<Rightarrow> Inr (series_query u t ini fim rows))
             | _ \<Rightarrow> Inl ProgrammingError))"

definition load_data ::
  "string \<Rightarrow> date \<Rightarrow> date \<Rightarrow> string \<Rightarrow> store \<Rightarrow> (error + point list) \<times> store" where
  "load_data t ini fim freq db =
     (let sql = series_sql freq;
          stmt = (sql, [(''t'', PText t), (''ini'', PDate ini), (''fim'', PDate fim)])
      in read_sql stmt (run_series stmt) db)"

text \<open>
  The call site of the script, \<open>load_data(ticker, data_ini, data_fim, freq_map[freq])\<close>:
  the radio widget returns one of its three options, and the dictionary maps it to the
  field. A label that is not a key raises \<open>KeyError\<close>. \<open>load_selected\<close> is the call when
  the body runs; \<open>cached_load_selected\<close> below is the call under the decorator.
\<close>

definition freq_options :: "string list" where
  "freq_options = [''Di'' @ [CHR 0xE1] @ ''ria'', ''Semanal'', ''Mensal'']"

definition freq_map :: "string \<rightharpoonup> string" where
  "freq_map =
     map_of [(''Di'' @ [CHR 0xE1] @ ''ria'', ''D''), (''Semanal'', ''W''), (''Mensal'', ''M'')]"

definition load_selected ::
  "string \<Rightarrow> date \<Rightarrow> date \<Rightarrow> string \<Rightarrow> store \<Rightarrow> (error + point list) \<times> store" where
  "load_selected ticker data_ini data_fim freq db =
     (case freq_map freq of
        None \<Rightarrow> (Inl KeyError, db)
      | Some f \<Rightarrow> load_data ticker data_ini data_fim f db)"

subsection \<open>The catalog queries (lista_tickers, get_date_bounds)\<close>

text \<open>
  \<open>codneg ~ '^[A-Z]{4}\d'\<close> holds when the code starts with four capital letters and a
  digit, and \<open>(REGEXP_MATCH(codneg, '^([A-Z]{4}\d{1})'))[1]\<close> is then the group that
  matched, the first five characters; it is NULL (\<open>None\<close>) when the code does not match.
  \<open>ORDER BY\<close> is taken in the order of the character codes, which is the order of every
  collation on texts of four capital letters and a digit; NULLs come last.
\<close>

definition matches_ticker :: "string \<Rightarrow> bool" where
  "matches_ticker s \<longleftrightarrow> 5 \<le> length s \<and> list_all is_upper (take 4 s) \<and> is_digit (s ! 4)"

definition regexp_match_1 :: "string \<Rightarrow> string option" where
  "regexp_match_1 s = (if matches_ticker s then Some (take 5 s) else None)"

definition dropna :: "'a option list \<Rightarrow> 'a list" where
  "dropna xs = List.map_filter id xs"

definition order_by_asc :: "string option list \<Rightarrow> string option list" where
  "order_by_asc xs = map Some (sort (dropna xs)) @ filter (\<lambda>x. x = None) xs"

definition lista_sql :: string where
  "lista_sql =
     [nl] @ ''        SELECT DISTINCT '' @ [nl] @
     ''            -- Extrai apenas a parte principal do ticker (ex: PETR4 de PETR4F)'' @ [nl] @
     ''            (REGEXP_MATCH(codneg, '' @ [apostrophe] @ ''^([A-Z]{4}'' @ [backslash] @
       ''d{1})'' @ [apostrophe] @ ''))[1] AS ticker_clean'' @ [nl] @
     ''        FROM cotahist_hist '' @ [nl] @
     ''        -- Filtra apenas tickers que come'' @ [CHR 0xE7] @ ''am com 4 letras e 1 d'' @
       [CHR 0xED] @ ''gito'' @ [nl] @
     ''        WHERE codneg ~ '' @ [apostrophe] @ ''^[A-Z]{4}'' @ [backslash] @ ''d'' @
       [apostrophe] @ ''  '' @ [nl] @
     ''        ORDER BY ticker_clean'' @ [nl] @
     ''    ''"

definition run_lista :: "statement \<Rightarrow> row list \<Rightarrow> error + string option list" where
  "run_lista stmt rows =
     (if fst stmt = lista_sql
      then Inr (order_by_asc
                 (remdups (map (\<lambda>r. regexp_match_1 (codneg r))
                            (filter (\<lambda>r. matches_ticker (codneg r)) rows))))
      else Inl (OtherStatement (fst stmt)))"

text \<open>\<open>Series.unique()\<close> keeps the first occurrence of every value, in the order met.\<close>

definition unique :: "'a list \<Rightarrow> 'a list" where
  "unique xs = rev (remdups (rev xs))"

definition lista_tickers :: "store \<Rightarrow> (error + string list) \<times> store" where
  "lista_tickers db =
     (let sql = lista_sql
      in case read_sql (sql, []) (run_lista (sql, [])) db of
           (Inl e, db') \<Rightarrow> (Inl e, db')
         | (Inr ticker_clean, db') \<Rightarrow> (Inr (unique (dropna ticker_clean)), db'))"

text \<open>
  \<open>MIN\<close> and \<open>MAX\<close> over no rows are NULL, and the statement still returns its one row:
  \<open>.iloc[0]\<close> finds it, and the pair that \<open>get_date_bounds\<close> returns is then a pair of nulls.
\<close>

fun sql_min :: "date list \<Rightarrow> date option" where
  "sql_min [] = None"
| "sql_min (d # ds) = Some (fold min ds d)"

fun sql_max :: "date list \<Rightarrow> date option" where
  "sql_max [] = None"
| "sql_max (d # ds) = Some (fold max ds d)"

definition bounds_sql :: string where
  "bounds_sql = ''SELECT MIN(data_operacao) AS min, MAX(data_operacao) AS max FROM cotahist_hist''"

definition run_bounds :: "statement \<Rightarrow> row list \<Rightarrow> error + (date option \<times> date option) list" where
  "run_bounds stmt rows =
     (if fst stmt = bounds_sql
      then Inr [(sql_min (map data_operacao rows), sql_max (map data_operacao rows))]
      else Inl (OtherStatement (fst stmt)))"

definition get_date_bounds :: "store \<Rightarrow> (error + date option \<times> date option) \<times> store" where
  "get_date_bounds db =
     (case read_sql (bounds_sql, []) (run_bounds (bounds_sql, [])) db of
        (Inl e, db') \<Rightarrow> (Inl e, db')
      | (Inr [], db') \<Rightarrow> (Inl IndexError, db')
      | (Inr (result # _), db') \<Rightarrow> (Inr (fst result, snd result), db'))"

subsection \<open>The decorator st.cache_data\<close>

text \<open>
  \<open>@st.cache_data(ttl=n)\<close> keeps, for its function, the results by argument tuple, each with
  the time at which it was stored. A call whose arguments have an entry younger than \<open>n\<close>
  seconds returns the stored result and does not run the body. Any other call runs the
  body: a result is stored under the arguments with the time of the call, and returned; an
  exception leaves the memo as it was and leaves the call. Times are in seconds.
\<close>

type_synonym ('k, 'v) memo = "'k \<rightharpoonup> 'v \<times> nat"

definition lookup_fresh :: "nat \<Rightarrow> nat \<Rightarrow> ('k, 'v) memo \<Rightarrow> 'k \<Rightarrow> 'v option" where
  "lookup_fresh ttl now memo key =
     (case memo key of
        None \<Rightarrow> None
      | Some (v, stored) \<Rightarrow> if now < stored + ttl then Some v else None)"

definition fresh :: "nat \<Rightarrow> nat \<Rightarrow> ('k, 'v) memo \<Rightarrow> 'k \<Rightarrow> bool" where
  "fresh ttl now memo key \<longleftrightarrow> lookup_fresh ttl now memo key \<noteq> None"

definition cache_data ::
  "nat \<Rightarrow> ('k \<Rightarrow> store \<Rightarrow> (error + 'v) \<times> store) \<Rightarrow> nat \<Rightarrow> 'k \<Rightarrow> ('k, 'v) memo \<Rightarrow> store \<Rightarrow>
   (error + 'v) \<times> ('k, 'v) memo \<times> store" where
  "cache_data ttl body now key memo db =
     (case lookup_fresh ttl now memo key of
        Some v \<Rightarrow> (Inr v, memo, db)
      | None \<Rightarrow>
          (case body key db of
             (Inl e, db') \<Rightarrow> (Inl e, memo, db')
           | (Inr v, db') \<Rightarrow> (Inr v, memo(key \<mapsto> (v, now)), db')))"

text \<open>
  The three functions as the script calls them: \<open>load_data\<close> with one hour, the two
  catalog queries with twenty-four hours. \<open>now\<close> is the time of the call.
\<close>

type_synonym series_memo = "(string \<times> date \<times> date \<times> string, point list) memo"

definition cached_load_data ::
  "nat \<Rightarrow> string \<Rightarrow> date \<Rightarrow> date \<Rightarrow> string \<Rightarrow> series_memo \<Rightarrow> store \<Rightarrow>
   (error + point list) \<times> series_memo \<times> store" where
  "cached_load_data now t ini fim freq memo db =
     cache_data 3600 (\<lambda>(t, ini, fim, freq). load_data t ini fim freq) now (t, ini, fim, freq)
       memo db"

definition cached_load_selected ::
  "nat \<Rightarrow> string \<Rightarrow> date \<Rightarrow> date \<Rightarrow> string \<Rightarrow> series_memo \<Rightarrow> store \<Rightarrow>
   (error + point list) \<times> series_memo \<times> store" where
  "cached_load_selected now ticker data_ini data_fim freq memo db =
     (case freq_map freq of
        None \<Rightarrow> (Inl KeyError, memo, db)
      | Some f \<Rightarrow> cached_load_data now ticker data_ini data_fim f memo db)"

definition cached_lista_tickers ::
  "nat \<Rightarrow> (unit, string list) memo \<Rightarrow> store \<Rightarrow>
   (error + string list) \<times> (unit, string list) memo \<times> store" where
  "cached_lista_tickers now memo db = cache_data 86400 (\<lambda>_. lista_tickers) now () memo db"

definition cached_get_date_bounds ::
  "nat \<Rightarrow> (unit, date option \<times> date option) memo \<Rightarrow> store \<Rightarrow>
   (error + date option \<times> date option) \<times> (unit, date option \<times> date option) memo \<times> store" where
  "cached_get_date_bounds now memo db =
     cache_data 86400 (\<lambda>_. get_date_bounds) now () memo db"

text \<open>
  Every entry that \<open>load_data\<close> stores for a start after the end is the empty DataFrame;
  the memo that holds only such entries for such arguments is what the decorator can hold
  (lemmas \<open>reversed_empty_start\<close> and \<open>reversed_empty_kept\<close>).
\<close>

definition reversed_empty :: "series_memo \<Rightarrow> bool" where
  "reversed_empty memo \<longleftrightarrow>
     (\<forall>t ini fim freq v stored.
        memo (t, ini, fim, freq) = Some (v, stored) \<longrightarrow> fim < ini \<longrightarrow> v = [])"

subsection \<open>The date formatter and the title\<close>

text \<open>
  \<open>meses[i]\<close>: an index from 0 reads from the front, an index below 0 reads from the
  back of the list, and any other index raises \<open>IndexError\<close>.
\<close>

definition py_index :: "'a list \<Rightarrow> int \<Rightarrow> error + 'a" where
  "py_index xs i =
     (if 0 \<le> i \<and> i < int (length xs) then Inr (xs ! nat i)
      else if - int (length xs) \<le> i \<and> i < 0 then Inr (xs ! nat (int (length xs) + i))
      else Inl IndexError)"

definition meses :: "string list" where
  "meses =
     [''Janeiro'', ''Fevereiro'', ''Mar'' @ [CHR 0xE7] @ ''o'', ''Abril'', ''Maio'', ''Junho'',
      ''Julho'', ''Agosto'', ''Setembro'', ''Outubro'', ''Novembro'', ''Dezembro'']"

definition formatar_data_ptbr :: "date \<Rightarrow> error + string" where
  "formatar_data_ptbr dt =
     (case py_index meses (int (month dt) - 1) of
        Inl e \<Rightarrow> Inl e
      | Inr mes \<Rightarrow> Inr (str_nat (day dt) @ '', '' @ mes @ '', '' @ str_nat (year dt)))"

text \<open>
  \<open>pd.Timestamp(d)\<close> of a date is that date at midnight; the formatter reads its day, month
  and year only.
\<close>

definition titulo_formatado :: "string \<Rightarrow> string \<Rightarrow> date \<Rightarrow> date \<Rightarrow> error + string" where
  "titulo_formatado ticker freq data_ini data_fim =
     (case formatar_data_ptbr data_ini of
        Inl e \<Rightarrow> Inl e
      | Inr ini \<Rightarrow>
          (case formatar_data_ptbr data_fim of
             Inl e \<Rightarrow> Inl e
           | Inr fim \<Rightarrow> Inr (ticker @ '' | '' @ freq @ '' | '' @ ini @ '' - '' @ fim)))"

subsection \<open>The chart\<close>

text \<open>
  The Plotly figure as the data it is: a list of traces and a layout. Only the properties
  that the script sets, and the axis references that \<open>make_subplots\<close> and \<open>add_trace\<close> set
  for a secondary y-axis, are kept; a property that is not set is \<open>None\<close>. Numbers in the
  figure are exact (\<open>rat\<close>); the volumes enter it as the integers they are.
\<close>

record trace =
  trace_type :: string
  trace_x :: "date list"
  trace_y :: "rat list"
  trace_name :: string
  line_color :: "string option"
  marker_color :: "string option"
  opacity :: "rat option"
  visible :: "string option"
  trace_xaxis :: string
  trace_yaxis :: string

record axis =
  axis_title :: "string option"
  anchor :: "string option"
  overlaying :: "string option"
  side :: "string option"
  rangemode :: "string option"

record legend =
  orientation :: string
  yanchor :: string
  legend_y :: rat

record layout =
  title :: "string option"
  xaxis :: axis
  yaxis :: axis
  yaxis2 :: axis
  layout_legend :: "legend option"
  template :: "string option"
  height :: "nat option"

record figure =
  fig_data :: "trace list"
  fig_layout :: layout

definition blank_axis :: axis where
  "blank_axis =
     \<lparr>axis_title = None, anchor = None, overlaying = None, side = None, rangemode = None\<rparr>"

text \<open>\<open>make_subplots(specs=[[{"secondary_y": True}]])\<close>: one x-axis, and two y-axes over it.\<close>

definition make_subplots :: figure where
  "make_subplots =
     \<lparr>fig_data = [],
      fig_layout =
        \<lparr>title = None,
         xaxis = blank_axis\<lparr>anchor := Some ''y''\<rparr>,
         yaxis = blank_axis\<lparr>anchor := Some ''x''\<rparr>,
         yaxis2 = blank_axis\<lparr>anchor := Some ''x'', overlaying := Some ''y'', side := Some ''right''\<rparr>,
         layout_legend = None, template = None, height = None\<rparr>\<rparr>"

definition Scattergl :: "date list \<Rightarrow> rat list \<Rightarrow> string \<Rightarrow> string \<Rightarrow> trace" where
  "Scattergl xs ys nm colour =
     \<lparr>trace_type = ''scattergl'', trace_x = xs, trace_y = ys, trace_name = nm,
      line_color = Some colour, marker_color = None, opacity = None, visible = None,
      trace_xaxis = ''x'', trace_yaxis = ''y''\<rparr>"

definition Bar :: "date list \<Rightarrow> rat list \<Rightarrow> string \<Rightarrow> string \<Rightarrow> rat \<Rightarrow> string \<Rightarrow> trace" where
  "Bar xs ys nm colour opac vis =
     \<lparr>trace_type = ''bar'', trace_x = xs, trace_y = ys, trace_name = nm,
      line_color = None, marker_color = Some colour, opacity = Some opac, visible = Some vis,
      trace_xaxis = ''x'', trace_yaxis = ''y''\<rparr>"

text \<open>\<open>fig.add_trace(tr, secondary_y=b)\<close> binds the trace to \<open>y2\<close> or to \<open>y\<close> and appends it.\<close>

definition add_trace :: "trace \<Rightarrow> bool \<Rightarrow> figure \<Rightarrow> figure" where
  "add_trace tr secondary_y fig =
     fig\<lparr>fig_data :=
           fig_data fig @ [tr\<lparr>trace_xaxis := ''x'',
                               trace_yaxis := (if secondary_y then ''y2'' else ''y'')\<rparr>]\<rparr>"

text \<open>The \<open>update_layout\<close> call of the script, with its fixed arguments and the title.\<close>

definition update_layout :: "string \<Rightarrow> figure \<Rightarrow> figure" where
  "update_layout titulo fig =
     fig\<lparr>fig_layout :=
           (fig_layout fig)
             \<lparr>title := Some titulo,
              xaxis := (xaxis (fig_layout fig))\<lparr>axis_title := Some ''Data''\<rparr>,
              yaxis := (yaxis (fig_layout fig))
                         \<lparr>axis_title := Some (''Pre'' @ [CHR 0xE7] @ ''o (R$)'')\<rparr>,
              yaxis2 := (yaxis2 (fig_layout fig))\<lparr>axis_title := Some ''Volume''\<rparr>,
              layout_legend := Some \<lparr>orientation = ''h'', yanchor = ''bottom'', legend_y = 102 / 100\<rparr>,
              template := Some ''plotly_white'',
              height := Some 600\<rparr>\<rparr>"

text \<open>
  \<open>fig.update_yaxes(rangemode=mode, secondary_y=b)\<close> changes the y-axes of the kind \<open>b\<close>
  names: the secondary one, \<open>yaxis2\<close>, or the primary one, \<open>yaxis\<close>.
\<close>

definition update_yaxes :: "string \<Rightarrow> bool \<Rightarrow> figure \<Rightarrow> figure" where
  "update_yaxes mode secondary_y fig =
     (if secondary_y
      then fig\<lparr>fig_layout :=
                 (fig_layout fig)\<lparr>yaxis2 := (yaxis2 (fig_layout fig))\<lparr>rangemode := Some mode\<rparr>\<rparr>\<rparr>
      else fig\<lparr>fig_layout :=
                 (fig_layout fig)\<lparr>yaxis := (yaxis (fig_layout fig))\<lparr>rangemode := Some mode\<rparr>\<rparr>\<rparr>)"

text \<open>
  The chart construction of the script (from \<open>titulo_formatado\<close> to \<open>update_yaxes\<close>), as a
  function of the DataFrame and of the four selections it reads.
\<close>

definition build_chart ::
  "point list \<Rightarrow> string \<Rightarrow> string \<Rightarrow> date \<Rightarrow> date \<Rightarrow> error + figure" where
  "build_chart df ticker freq data_ini data_fim =
     (case titulo_formatado ticker freq data_ini data_fim of
        Inl e \<Rightarrow> Inl e
      | Inr titulo \<Rightarrow>
          (let fig0 = make_subplots;
               fig1 = add_trace
                        (Scattergl (map df_data_operacao df) (map df_preco df)
                           (''Pre'' @ [CHR 0xE7] @ ''o (R$)'') ''#1f77b4'')
                        False fig0;
               fig2 = add_trace
                        (Bar (map df_data_operacao df) (map (\<lambda>p. of_int (df_volume p)) df)
                           ''Volume'' ''lightgray'' (4 / 10) ''legendonly'')
                        True fig1;
               fig3 = update_layout titulo fig2
           in Inr (update_yaxes ''tozero'' True fig3)))"






text \<open>
  What one run of the script shows below the sidebar: the chart, and the caption with the
  date of the run, \<open>pd.Timestamp.now()\<close>, which is the argument \<open>now\<close>.
\<close>

record page =
  chart :: figure
  caption :: string

definition render ::
  "date \<Rightarrow> point list \<Rightarrow> string \<Rightarrow> string \<Rightarrow> date \<Rightarrow> date \<Rightarrow> error + page" where
  "render now df ticker freq data_ini data_fim =
     (case build_chart df ticker freq data_ini data_fim of
        Inl e \<Rightarrow> Inl e
      | Inr fig \<Rightarrow>
          (case formatar_data_ptbr now of
             Inl e \<Rightarrow> Inl e
           | Inr atualizacao_formatada \<Rightarrow>
               Inr \<lparr>chart = fig,
                    caption = ''Fonte: Banco de dados | Atualizado em '' @ atualizacao_formatada\<rparr>))"

subsection \<open>Example tables\<close>

text \<open>
  Two trading days of one ticker in January 2024; five days of that month in three of its
  weeks (1 January 2024 is a Monday); a table whose codes cover the cases of the ticker
  pattern: a code with a suffix, lower case, too few letters, no digit; and a table with
  one row whose volume is below zero.
\<close>

definition two_days :: "row list" where
  "two_days =
     [\<lparr>codneg = ''PETR4'', data_operacao = (2024, 1, 2), preco_fechamento = 30, volume = 100\<rparr>,
      \<lparr>codneg = ''PETR4'', data_operacao = (2024, 1, 3), preco_fechamento = 32, volume = 50\<rparr>]"

definition store_two_days :: store where
  "store_two_days = \<lparr>reachable = True, cotahist_hist = two_days, issued = []\<rparr>"

definition january :: "row list" where
  "january =
     map (\<lambda>d. \<lparr>codneg = ''PETR4'', data_operacao = (2024, 1, d), preco_fechamento = 30,
                volume = 100\<rparr>)
       [1, 7, 8, 14, 31]"

definition mixed_codes :: "row list" where
  "mixed_codes =
     map (\<lambda>c. \<lparr>codneg = c, data_operacao = (2024, 1, 2), preco_fechamento = 30, volume = 100\<rparr>)
       [''PETR4F'', ''VALE3'', ''PETR4'', ''petr4'', ''ABEV3'', ''AB3'', ''ITUB4T'', ''ABCDE'']"

definition store_mixed :: store where
  "store_mixed = \<lparr>reachable = True, cotahist_hist = mixed_codes, issued = []\<rparr>"


definition store_empty :: store where
  "store_empty = \<lparr>reachable = True, cotahist_hist = [], issued = []\<rparr>"

section \<open>Properties\<close>

subsection \<open>The calendar\<close>

text \<open>
  The ordinal of the day before a date is one less, across the ends of months and of
  years, leap years included; so the start of the week is a Monday, at most six days
  before the date and not after it.
\<close>

lemma days_in_month_bounds: "28 \<le> days_in_month y m" "days_in_month y m \<le> 31"
  by (simp_all add: days_in_month_def)

lemma days_before_month_Suc:
  "1 \<le> m \<Longrightarrow> days_before_month y (Suc m) = days_before_month y m + int (days_in_month y m)"
  by (simp add: days_before_month_def)

lemma days_before_month_1: "days_before_month y (Suc 0) = 0"
  by (simp add: days_before_month_def)

lemma upt_1_12: "[1..<12] = [1, 2, 3, 4, 5, 6, 7, 8, 9, 10, 11::nat]"
  by code_simp

lemma days_before_month_12:
  "days_before_month y 12 = (if is_leap y then 335 else 334)"
  unfolding days_before_month_def upt_1_12 by (simp add: days_in_month_def)

lemma div_succ_int:
  fixes p k :: int
  assumes "0 < k"
  shows "(p + 1) div k = p div k + (if (p + 1) mod k = 0 then 1 else 0)"
proof -
  define r where "r = p mod k"
  define q where "q = p div k"
  have r: "0 \<le> r" "r < k"
    using assms by (simp_all add: r_def)
  have p_eq: "p = k * q + r"
    by (simp add: r_def q_def)
  show ?thesis
  proof (cases "r + 1 = k")
    case True
    then have e: "p + 1 = k * (q + 1) + 0"
      using p_eq by (simp add: algebra_simps)
    have "(p + 1) div k = q + 1" and "(p + 1) mod k = 0"
      using int_div_pos_eq [OF e] int_mod_pos_eq [OF e] assms by simp_all
    then show ?thesis
      by (simp add: q_def)
  next
    case False
    then have lt: "r + 1 < k" and ge: "0 \<le> r + 1"
      using r by simp_all
    have e: "p + 1 = k * q + (r + 1)"
      using p_eq by simp
    have "(p + 1) div k = q" and "(p + 1) mod k = r + 1"
      using int_div_pos_eq [OF e ge lt] int_mod_pos_eq [OF e ge lt] by simp_all
    then show ?thesis
      using r by (simp add: q_def)
  qed
qed

lemma is_leap_int:
  "is_leap y \<longleftrightarrow> int y mod 4 = 0 \<and> (int y mod 100 \<noteq> 0 \<or> int y mod 400 = 0)"
proof -
  have "int y mod 4 = int (y mod 4)" "int y mod 100 = int (y mod 100)"
    "int y mod 400 = int (y mod 400)"
    by (simp_all add: zmod_int)
  then show ?thesis
    by (simp add: is_leap_def)
qed

lemma leap_step_arith:
  fixes a4 a100 a400 b4 b100 b400 p :: int
  assumes "b4 = a4 + (if m4 then 1 else 0)"
    and "b100 = a100 + (if m100 then 1 else 0)"
    and "b400 = a400 + (if m400 then 1 else 0)"
    and "m400 \<Longrightarrow> m100" and "m100 \<Longrightarrow> m4"
  shows "(p + 1) * 365 + b4 - b100 + b400 =
         p * 365 + a4 - a100 + a400 + (if m4 \<and> (\<not> m100 \<or> m400) then 366 else 365)"
  using assms by (cases m4; cases m100; cases m400) (simp_all add: algebra_simps)

lemma days_before_year_step:
  assumes "1 \<le> y"
  shows "days_before_year (Suc y) = days_before_year y + (if is_leap y then 366 else 365)"
proof -
  define p where "p = int y - 1"
  have y: "int y = p + 1"
    by (simp add: p_def)
  have A: "days_before_year (Suc y) = (p + 1) * 365 + (p + 1) div 4 - (p + 1) div 100 + (p + 1) div 400"
    by (simp add: days_before_year_def p_def Let_def)
  have B: "days_before_year y = p * 365 + p div 4 - p div 100 + p div 400"
    by (simp add: days_before_year_def p_def Let_def)
  have C: "(p + 1) mod 400 = 0 \<Longrightarrow> (p + 1) mod 100 = 0"
    using mod_mod_cancel [of 100 400 "p + 1"] by simp
  have D: "(p + 1) mod 100 = 0 \<Longrightarrow> (p + 1) mod 4 = 0"
    using mod_mod_cancel [of 4 100 "p + 1"] by simp
  have e4: "(p + 1) div 4 = p div 4 + (if (p + 1) mod 4 = 0 then 1 else 0)"
    by (rule div_succ_int) simp
  have e100: "(p + 1) div 100 = p div 100 + (if (p + 1) mod 100 = 0 then 1 else 0)"
    by (rule div_succ_int) simp
  have e400: "(p + 1) div 400 = p div 400 + (if (p + 1) mod 400 = 0 then 1 else 0)"
    by (rule div_succ_int) simp
  have L: "is_leap y \<longleftrightarrow> (p + 1) mod 4 = 0 \<and> (\<not> (p + 1) mod 100 = 0 \<or> (p + 1) mod 400 = 0)"
    unfolding is_leap_int y ..
  show ?thesis
    unfolding A B L by (rule leap_step_arith [OF e4 e100 e400 C D])
qed

lemma toordinal_first_day: "toordinal (1, 1, 1) = 1"
  by (simp add: toordinal_def days_before_year_def days_before_month_def)

lemma prev_day_ordinal:
  assumes "valid_date dt" and "dt \<noteq> (1, 1, 1)"
  shows "toordinal (prev_day dt) = toordinal dt - 1 \<and> valid_date (prev_day dt) \<and> prev_day dt < dt"
proof -
  obtain y m d where dt: "dt = (y, m, d)"
    by (cases dt) auto
  have v: "1 \<le> y" "y \<le> 9999" "1 \<le> m" "m \<le> 12" "1 \<le> d" "d \<le> days_in_month y m"
    using assms(1) by (simp_all add: valid_date_def dt)
  consider (day) "1 < d" | (month) "d = 1" "1 < m" | (year) "d = 1" "m = 1" "1 < y"
    using v assms(2) dt by force
  then show ?thesis
  proof cases
    case day
    then show ?thesis
      using v by (auto simp: dt prev_day_def toordinal_def valid_date_def less_prod_def)
  next
    case month
    then obtain k where k: "m = Suc k" "1 \<le> k"
      by (cases m) auto
    have "days_before_month y m = days_before_month y k + int (days_in_month y k)"
      using days_before_month_Suc [OF k(2), of y] k(1) by simp
    moreover have "1 \<le> days_in_month y k"
      using days_in_month_bounds(1) [of y k] by simp
    ultimately show ?thesis
      using v month k by (simp add: dt prev_day_def toordinal_def valid_date_def less_prod_def)
  next
    case year
    then obtain z where z: "y = Suc z" "1 \<le> z"
      by (cases y) auto
    have "days_before_year y = days_before_year z + (if is_leap z then 366 else 365)"
      using days_before_year_step [OF z(2)] z(1) by simp
    moreover have "days_in_month z 12 = 31"
      by (simp add: days_in_month_def)
    ultimately show ?thesis
      using v year z
      by (simp add: dt prev_day_def toordinal_def valid_date_def less_prod_def
          days_before_month_12 days_before_month_1)
  qed
qed

lemma days_back_ordinal:
  "valid_date dt \<Longrightarrow> int n < toordinal dt \<Longrightarrow>
   toordinal (days_back n dt) = toordinal dt - int n \<and> valid_date (days_back n dt) \<and>
   days_back n dt \<le> dt"
proof (induction n arbitrary: dt)
  case 0
  then show ?case by simp
next
  case (Suc n)
  have "dt \<noteq> (1, 1, 1)"
    using Suc.prems(2) toordinal_first_day by auto
  from prev_day_ordinal [OF Suc.prems(1) this]
  have p: "toordinal (prev_day dt) = toordinal dt - 1" "valid_date (prev_day dt)" "prev_day dt < dt"
    by simp_all
  have "int n < toordinal (prev_day dt)"
    using Suc.prems(2) p(1) by simp
  from Suc.IH [OF p(2) this]
  have i: "toordinal (days_back n (prev_day dt)) = toordinal (prev_day dt) - int n"
    "valid_date (days_back n (prev_day dt))" "days_back n (prev_day dt) \<le> prev_day dt"
    by simp_all
  have "days_back n (prev_day dt) \<le> dt"
    using i(3) p(3) by (rule order.trans [OF _ order.strict_implies_order])
  then show ?case
    using i p by simp
qed

lemma week_start_monday:
  assumes "valid_date dt" and "7 \<le> toordinal dt"
  shows "weekday (week_start dt) = 0" and "valid_date (week_start dt)"
    and "week_start dt \<le> dt"
    and "toordinal dt - toordinal (week_start dt) = int (weekday dt)" and "weekday dt \<le> 6"
proof -
  have w: "int (weekday dt) = (toordinal dt + 6) mod 7"
    using assms(2) by (simp add: weekday_def)
  then have lt: "int (weekday dt) < toordinal dt"
    using assms(2) by presburger
  from days_back_ordinal [OF assms(1) lt]
  have o: "toordinal (week_start dt) = toordinal dt - int (weekday dt)"
    and "valid_date (week_start dt)" and "week_start dt \<le> dt"
    by (simp_all add: week_start_def)
  then show "valid_date (week_start dt)" and "week_start dt \<le> dt"
    and "toordinal dt - toordinal (week_start dt) = int (weekday dt)"
    by simp_all
  show "weekday dt \<le> 6"
    using w by presburger
  have "(toordinal (week_start dt) + 6) mod 7 = 0"
    unfolding o w by presburger
  then show "weekday (week_start dt) = 0"
    by (simp add: weekday_def)
qed

lemma date_trunc_day_or_less:
  "u \<in> {Microsecond, Millisecond, Second, Minute, Hour, Day} \<Longrightarrow> date_trunc u dt = dt"
  by auto

subsection \<open>The series query\<close>

lemma field_of_series_sql: "field_of (series_sql f) = Some f"
  by (simp add: field_of_def series_sql_def)

lemma run_series_load:
  "list_all is_word_char f \<Longrightarrow> decode_units f = Some u \<Longrightarrow>
   run_series (series_sql f, [(''t'', PText t), (''ini'', PDate ini), (''fim'', PDate fim)]) rows =
     Inr (series_query u t ini fim rows)"
  by (simp add: run_series_def field_of_series_sql)

lemma load_data_issued:
  "reachable db \<Longrightarrow>
   snd (load_data t ini fim f db) =
     db\<lparr>issued := issued db @
            [(series_sql f, [(''t'', PText t), (''ini'', PDate ini), (''fim'', PDate fim)])]\<rparr>"
  by (simp add: load_data_def read_sql_def Let_def)

lemma load_data_reachable:
  "reachable db \<Longrightarrow> list_all is_word_char f \<Longrightarrow> decode_units f = Some u \<Longrightarrow>
   load_data t ini fim f db =
     (Inr (series_query u t ini fim (cotahist_hist db)),
      db\<lparr>issued := issued db @
             [(series_sql f, [(''t'', PText t), (''ini'', PDate ini), (''fim'', PDate fim)])]\<rparr>)"
  by (simp add: load_data_def read_sql_def run_series_load Let_def)

lemma load_data_unreachable:
  "\<not> reachable db \<Longrightarrow> load_data t ini fim f db = (Inl OperationalError, db)"
  by (simp add: load_data_def read_sql_def Let_def)

lemma decode_units_D: "decode_units ''D'' = Some Day"
  by code_simp

lemma decode_units_W: "decode_units ''W'' = Some Week"
  by code_simp

lemma decode_units_M: "decode_units ''M'' = Some Minute"
  by code_simp

lemma word_D: "list_all is_word_char ''D''"
  by code_simp

lemma word_W: "list_all is_word_char ''W''"
  by code_simp

lemma word_M: "list_all is_word_char ''M''"
  by code_simp

lemma script_fields:
  "freq \<in> {''D'', ''W'', ''M''} \<Longrightarrow>
   list_all is_word_char freq \<and> (\<exists>u. decode_units freq = Some u)"
  using decode_units_D decode_units_W decode_units_M word_D word_W word_M by auto

lemma selected_reversed: "fim < ini \<Longrightarrow> selected t ini fim rows = []"
  by (auto simp: selected_def filter_empty_conv)

lemma series_query_no_rows:
  "selected t ini fim rows = [] \<Longrightarrow> series_query u t ini fim rows = []"
  by (simp add: series_query_def)

text \<open>
  For every unit: the output rows are in strictly ascending order of their dates, every
  output row is the aggregate of a group that is not empty, and every selected row falls
  in the group of one output row.
\<close>

lemma series_query_keys:
  "map df_data_operacao (series_query u t ini fim rows) =
     sort (remdups (map (\<lambda>r. date_trunc u (data_operacao r)) (selected t ini fim rows)))"
  by (simp add: series_query_def Let_def aggregate_def comp_def)

lemma series_query_strict:
  "sorted_wrt (<) (map df_data_operacao (series_query u t ini fim rows))"
  unfolding series_query_keys by (simp add: strict_sorted_iff)

lemma bucket_rows_nonempty:
  "k \<in> set (map (\<lambda>r. date_trunc u (data_operacao r)) rs) \<Longrightarrow> bucket_rows u k rs \<noteq> []"
  by (auto simp: bucket_rows_def filter_empty_conv)

lemma series_query_point:
  assumes "p \<in> set (series_query u t ini fim rows)"
  shows "bucket_rows u (df_data_operacao p) (selected t ini fim rows) \<noteq> []"
    and "df_preco p =
           sum_list (map preco_fechamento
             (bucket_rows u (df_data_operacao p) (selected t ini fim rows)))
           / of_nat (length (bucket_rows u (df_data_operacao p) (selected t ini fim rows)))"
    and "df_volume p =
           sum_list (map volume (bucket_rows u (df_data_operacao p) (selected t ini fim rows)))"
  using assms
  by (auto simp: series_query_def Let_def aggregate_def sql_avg_def bucket_rows_def
      filter_empty_conv)

lemma series_query_covers:
  "r \<in> set (selected t ini fim rows) \<Longrightarrow>
   date_trunc u (data_operacao r) \<in> df_data_operacao ` set (series_query u t ini fim rows)"
  by (force simp: series_query_def Let_def aggregate_def)

text \<open>Weeks start on Monday: the five days of the example fall in three weekly rows.\<close>

lemma weekly_example:
  "series_query Week ''PETR4'' (2024, 1, 1) (2024, 1, 31) january =
     [\<lparr>df_data_operacao = (2024, 1, 1), df_preco = 30, df_volume = 200\<rparr>,
      \<lparr>df_data_operacao = (2024, 1, 8), df_preco = 30, df_volume = 200\<rparr>,
      \<lparr>df_data_operacao = (2024, 1, 29), df_preco = 30, df_volume = 100\<rparr>]"
  by code_simp

lemma load_data_reversed:
  "fim < ini \<Longrightarrow> fst (load_data t ini fim freq db) = Inr v \<Longrightarrow> v = []"
  by (auto simp: load_data_def read_sql_def run_series_def Let_def selected_reversed
      series_query_no_rows split: if_splits option.splits param.splits)

subsection \<open>The decorator\<close>

lemma cache_data_hit:
  "lookup_fresh ttl now memo key = Some v \<Longrightarrow>
   cache_data ttl body now key memo db = (Inr v, memo, db)"
  by (simp add: cache_data_def)

lemma cache_data_miss:
  "lookup_fresh ttl now memo key = None \<Longrightarrow>
   cache_data ttl body now key memo db =
     (case body key db of
        (Inl e, db') \<Rightarrow> (Inl e, memo, db')
      | (Inr v, db') \<Rightarrow> (Inr v, memo(key \<mapsto> (v, now)), db'))"
  by (simp add: cache_data_def)

text \<open>
  A second call with the same arguments, less than \<open>ttl\<close> seconds after the result was
  stored, returns the stored result, and neither the memo nor the store changes: no
  statement is sent.
\<close>

lemma cache_data_repeat:
  "later < now + ttl \<Longrightarrow>
   cache_data ttl body later key (memo(key \<mapsto> (v, now))) db =
     (Inr v, memo(key \<mapsto> (v, now)), db)"
  by (simp add: cache_data_def lookup_fresh_def)

lemma lookup_fresh_entry:
  "lookup_fresh ttl now memo key = Some v \<Longrightarrow> \<exists>stored. memo key = Some (v, stored)"
  by (auto simp: lookup_fresh_def split: option.splits if_splits)

lemma cache_data_stores:
  assumes "cache_data ttl body now key memo db = (Inr v, memo', db')"
  shows "\<exists>stored. memo' key = Some (v, stored)"
proof (cases "lookup_fresh ttl now memo key")
  case (Some w)
  then show ?thesis
    using assms lookup_fresh_entry [OF Some] by (simp add: cache_data_hit)
next
  case None
  then show ?thesis
    using assms by (auto simp: cache_data_miss split: prod.splits sum.splits)
qed

text \<open>
  After a call that returned a result, every call with the same arguments for which the
  entry is still fresh returns the same result and sends nothing.
\<close>

lemma cache_data_again:
  assumes "cache_data ttl body now key memo db = (Inr v, memo', db')"
    and "fresh ttl later memo' key"
  shows "cache_data ttl body later key memo' db'' = (Inr v, memo', db'')"
proof -
  from cache_data_stores [OF assms(1)] obtain stored where "memo' key = Some (v, stored)"
    by blast
  then have "lookup_fresh ttl later memo' key = Some v"
    using assms(2) by (auto simp: fresh_def lookup_fresh_def split: if_splits)
  then show ?thesis
    by (rule cache_data_hit)
qed

lemma cached_load_data_again:
  assumes "cached_load_data now t ini fim freq memo db = (Inr v, memo', db')"
    and "fresh 3600 later memo' (t, ini, fim, freq)"
  shows "cached_load_data later t ini fim freq memo' db'' = (Inr v, memo', db'')"
  using assms unfolding cached_load_data_def by (rule cache_data_again)

text \<open>Without a fresh entry the call is a call of the body, and its result is stored.\<close>

lemma cached_load_data_miss:
  "\<not> fresh 3600 now memo (t, ini, fim, freq) \<Longrightarrow>
   cached_load_data now t ini fim freq memo db =
     (case load_data t ini fim freq db of
        (Inl e, db') \<Rightarrow> (Inl e, memo, db')
      | (Inr v, db') \<Rightarrow> (Inr v, memo((t, ini, fim, freq) \<mapsto> (v, now)), db'))"
  by (simp add: cached_load_data_def cache_data_miss fresh_def)

lemma cached_lista_tickers_miss:
  "\<not> fresh 86400 now memo () \<Longrightarrow>
   cached_lista_tickers now memo db =
     (case lista_tickers db of
        (Inl e, db') \<Rightarrow> (Inl e, memo, db')
      | (Inr v, db') \<Rightarrow> (Inr v, memo(() \<mapsto> (v, now)), db'))"
  by (simp add: cached_lista_tickers_def cache_data_miss fresh_def)

lemma cached_get_date_bounds_miss:
  "\<not> fresh 86400 now memo () \<Longrightarrow>
   cached_get_date_bounds now memo db =
     (case get_date_bounds db of
        (Inl e, db') \<Rightarrow> (Inl e, memo, db')
      | (Inr v, db') \<Rightarrow> (Inr v, memo(() \<mapsto> (v, now)), db'))"
  unfolding cached_get_date_bounds_def fresh_def
  by (cases "lookup_fresh 86400 now memo ()") (simp_all only: cache_data_miss, simp)

lemma cached_load_selected_miss:
  "freq_map freq = Some f \<Longrightarrow> \<not> fresh 3600 now memo (ticker, data_ini, data_fim, f) \<Longrightarrow>
   cached_load_selected now ticker data_ini data_fim freq memo db =
     (case load_selected ticker data_ini data_fim freq db of
        (Inl e, db') \<Rightarrow> (Inl e, memo, db')
      | (Inr v, db') \<Rightarrow> (Inr v, memo((ticker, data_ini, data_fim, f) \<mapsto> (v, now)), db'))"
  by (simp add: cached_load_selected_def load_selected_def cached_load_data_miss)

lemma reversed_empty_start: "reversed_empty Map.empty"
  by (simp add: reversed_empty_def)

lemma reversed_emptyD:
  "reversed_empty memo \<Longrightarrow> memo (t, ini, fim, freq) = Some (v, stored) \<Longrightarrow> fim < ini \<Longrightarrow> v = []"
  unfolding reversed_empty_def by blast

lemma reversed_empty_update:
  assumes "reversed_empty memo" and "fim < ini \<Longrightarrow> v = []"
  shows "reversed_empty (memo((t, ini, fim, freq) \<mapsto> (v, now)))"
  unfolding reversed_empty_def
proof (intro allI impI)
  fix t' ini' fim' freq' v' stored
  assume m: "(memo((t, ini, fim, freq) \<mapsto> (v, now))) (t', ini', fim', freq') = Some (v', stored)"
    and lt: "fim' < ini'"
  show "v' = []"
  proof (cases "(t', ini', fim', freq') = (t, ini, fim, freq)")
    case True
    then have "v' = v" and "fim' = fim" and "ini' = ini"
      using m by (simp_all only: fun_upd_same option.inject prod.inject)
    then show ?thesis
      using assms(2) lt by simp
  next
    case False
    then have "memo (t', ini', fim', freq') = Some (v', stored)"
      using m fun_upd_other [of "(t', ini', fim', freq')" "(t, ini, fim, freq)" memo "Some (v, now)"]
      by metis
    then show ?thesis
      by (rule reversed_emptyD [OF assms(1) _ lt])
  qed
qed

lemma reversed_empty_kept:
  assumes "reversed_empty memo"
  shows "reversed_empty (fst (snd (cached_load_data now t ini fim freq memo db)))"
proof (cases "lookup_fresh 3600 now memo (t, ini, fim, freq)")
  case (Some v)
  then show ?thesis
    using assms by (simp add: cached_load_data_def cache_data_hit)
next
  case None
  obtain r db' where r: "load_data t ini fim freq db = (r, db')"
    by (cases "load_data t ini fim freq db") auto
  show ?thesis
  proof (cases r)
    case (Inl e)
    then show ?thesis
      using assms None r by (simp add: cached_load_data_def cache_data_miss)
  next
    case (Inr v)
    have "fim < ini \<Longrightarrow> v = []"
      using load_data_reversed [of fim ini t freq db v] r Inr by simp
    then have "reversed_empty (memo((t, ini, fim, freq) \<mapsto> (v, now)))"
      using assms by (rule reversed_empty_update [rotated])
    then show ?thesis
      using None r Inr by (simp add: cached_load_data_def cache_data_miss)
  qed
qed

text \<open>
  C1. The claim is that a call with the start after the end fails with an
  InvalidRangeError before any statement is sent. \<open>load_data\<close> has no check of its dates.
  A call with the start after the end, with one of the three fields of the script and on a
  store that can be reached, raises nothing and returns the empty DataFrame. When the
  decorator holds a fresh result for the arguments, that result is returned and no
  statement is sent; otherwise the statement is sent with the two dates as they are,
  \<open>BETWEEN\<close> selects no row, and the empty DataFrame is stored under the arguments.
\<close>

theorem cached_load_data_reversed_range:
  assumes "fim < ini" and "freq \<in> {''D'', ''W'', ''M''}" and "reachable db"
    and "reversed_empty memo"
  shows "cached_load_data now t ini fim freq memo db =
           (if fresh 3600 now memo (t, ini, fim, freq)
            then (Inr [], memo, db)
            else (Inr [],
                  memo((t, ini, fim, freq) \<mapsto> ([], now)),
                  db\<lparr>issued := issued db @
                        [(series_sql freq,
                          [(''t'', PText t), (''ini'', PDate ini), (''fim'', PDate fim)])]\<rparr>))"
proof (cases "lookup_fresh 3600 now memo (t, ini, fim, freq)")
  case (Some v)
  from lookup_fresh_entry [OF Some] obtain stored where
    "memo (t, ini, fim, freq) = Some (v, stored)"
    by blast
  then have "v = []"
    using assms(1,4) by (rule reversed_emptyD [rotated])
  then show ?thesis
    using Some by (simp add: cached_load_data_def cache_data_hit fresh_def)
next
  case None
  from script_fields [OF assms(2)] obtain u where
    u: "list_all is_word_char freq" "decode_units freq = Some u"
    by blast
  have "series_query u t ini fim (cotahist_hist db) = []"
    using assms(1) by (simp add: selected_reversed series_query_no_rows)
  then show ?thesis
    using None load_data_reachable [OF assms(3) u, of t ini fim]
    by (simp add: cached_load_data_def cache_data_miss fresh_def)
qed

theorem cached_load_data_reversed_range_witness:
  "((2024, 1, 3) :: date) < (2024, 1, 31) \<and> ''W'' \<in> {''D'', ''W'', ''M''} \<and>
   reachable store_two_days \<and> reversed_empty Map.empty \<and>
   cached_load_data 0 ''PETR4'' (2024, 1, 31) (2024, 1, 3) ''W'' Map.empty store_two_days =
     (Inr [],
      [(''PETR4'', (2024, 1, 31), (2024, 1, 3), ''W'') \<mapsto> ([], 0)],
      store_two_days\<lparr>issued :=
        [(series_sql ''W'',
          [(''t'', PText ''PETR4''), (''ini'', PDate (2024, 1, 31)),
           (''fim'', PDate (2024, 1, 3))])]\<rparr>) \<and>
   reversed_empty [(''PETR4'', (2024, 1, 31), (2024, 1, 3), ''W'') \<mapsto> ([], 0)] \<and>
   cached_load_data 1800 ''PETR4'' (2024, 1, 31) (2024, 1, 3) ''W''
       [(''PETR4'', (2024, 1, 31), (2024, 1, 3), ''W'') \<mapsto> ([], 0)] store_two_days =
     (Inr [], [(''PETR4'', (2024, 1, 31), (2024, 1, 3), ''W'') \<mapsto> ([], 0)], store_two_days)"
proof -
  let ?key = "(''PETR4'', (2024, 1, 31) :: date, (2024, 1, 3) :: date, ''W'')"
  let ?memo = "[?key \<mapsto> ([] :: point list, 0 :: nat)]"
  have a: "((2024, 1, 3) :: date) < (2024, 1, 31)"
    by (simp add: less_prod_def)
  have b: "''W'' \<in> {''D'', ''W'', ''M''}"
    by simp
  have c: "reachable store_two_days" and i: "issued store_two_days = []"
    by (simp_all add: store_two_days_def)
  have d: "reversed_empty Map.empty"
    by (rule reversed_empty_start)
  have e: "reversed_empty ?memo"
    by (simp add: reversed_empty_def)
  have f: "\<not> fresh 3600 0 (Map.empty :: series_memo) ?key"
    by (simp add: fresh_def lookup_fresh_def)
  have g: "fresh 3600 1800 ?memo ?key"
    by (simp add: fresh_def lookup_fresh_def)
  show ?thesis
    using a b c d e
      cached_load_data_reversed_range [OF a b c d, of 0 "''PETR4''"]
      cached_load_data_reversed_range [OF a b c e, of 1800 "''PETR4''"]
    by (simp only: f g i if_True if_False append_Nil simp_thms)
qed

text \<open>
  The call with the start on 3 January and the end on 2 January returns a value, the
  empty DataFrame, and its statement is in the list of the statements sent.
\<close>

theorem load_data_reversed_range_returns:
  "load_data ''PETR4'' (2024, 1, 3) (2024, 1, 2) ''D'' store_two_days =
     (Inr [],
      \<lparr>reachable = True, cotahist_hist = two_days,
       issued = [(series_sql ''D'',
         [(''t'', PText ''PETR4''), (''ini'', PDate (2024, 1, 3)),
          (''fim'', PDate (2024, 1, 2))])]\<rparr>)"
  by (simp add: load_data_reachable [OF _ word_D decode_units_D] store_two_days_def
      series_query_no_rows selected_def two_days_def less_eq_prod_def)

text \<open>
  C3. The claim is that for each of the three frequencies the result holds the rows of
  the ticker inside the window, grouped by the date truncated to the day, the week or the
  month. The script sends \<open>'M'\<close> for "Mensal", and the server reads \<open>m\<close> as minute: the
  dates are left as they are and the result has one row per trading day. For the two
  trading days of the example the call returns two rows, where grouping by month gives one
  row, of 1 January, with the mean price 31 and the volume 150.
\<close>

theorem mensal_groups_by_day:
  "freq_map ''Mensal'' = Some ''M'' \<and>
   fst (load_data ''PETR4'' (2024, 1, 1) (2024, 1, 31) ''M'' store_two_days) =
     Inr [\<lparr>df_data_operacao = (2024, 1, 2), df_preco = 30, df_volume = 100\<rparr>,
          \<lparr>df_data_operacao = (2024, 1, 3), df_preco = 32, df_volume = 50\<rparr>] \<and>
   series_query Month ''PETR4'' (2024, 1, 1) (2024, 1, 31) two_days =
     [\<lparr>df_data_operacao = (2024, 1, 1), df_preco = 31, df_volume = 150\<rparr>]"
  by code_simp

text \<open>
  C5. The ticker and the two dates never enter the text of the statement: two calls with
  the same frequency send the same text, whatever their tickers and dates, and on a store
  that can be reached the call adds one statement, whose text is \<open>series_sql freq\<close> and
  whose bind parameters \<open>t\<close>, \<open>ini\<close> and \<open>fim\<close> carry the three values.
\<close>

theorem series_sql_text_fixed:
  "map fst (issued (snd (load_data t ini fim freq db))) =
     map fst (issued (snd (load_data t' ini' fim' freq db))) \<and>
   (reachable db \<longrightarrow>
      issued (snd (load_data t ini fim freq db)) =
        issued db @
          [(series_sql freq, [(''t'', PText t), (''ini'', PDate ini), (''fim'', PDate fim)])])"
  by (cases "reachable db") (simp_all add: load_data_issued load_data_unreachable)

theorem series_sql_text_fixed_witness:
  "reachable store_two_days \<and>
   map fst (issued (snd (load_data ''PETR4'' (2024, 1, 1) (2024, 1, 31) ''W'' store_two_days))) =
     [series_sql ''W''] \<and>
   map fst (issued (snd (load_data ''VALE3'' (2023, 6, 1) (2023, 6, 30) ''W'' store_two_days))) =
     [series_sql ''W''] \<and>
   map snd (issued (snd (load_data ''VALE3'' (2023, 6, 1) (2023, 6, 30) ''W'' store_two_days))) =
     [[(''t'', PText ''VALE3''), (''ini'', PDate (2023, 6, 1)), (''fim'', PDate (2023, 6, 30))]]"
proof -
  have a: "reachable store_two_days" "issued store_two_days = []"
    by (simp_all add: store_two_days_def)
  show ?thesis
    using a
      series_sql_text_fixed [of "''PETR4''" "(2024, 1, 1)" "(2024, 1, 31)" "''W''" store_two_days
        "''VALE3''" "(2023, 6, 1)" "(2023, 6, 30)"]
      series_sql_text_fixed [of "''VALE3''" "(2023, 6, 1)" "(2023, 6, 30)" "''W''" store_two_days
        "''VALE3''" "(2023, 6, 1)" "(2023, 6, 30)"]
    by simp
qed

lemma freq_map_options:
  "freq \<in> set freq_options \<Longrightarrow>
   \<exists>f. freq_map freq = Some f \<and> (f = ''D'' \<or> f = ''W'' \<or> f = ''M'')"
  by (auto simp: freq_options_def freq_map_def)

lemma series_sql_inj: "series_sql f = series_sql g \<Longrightarrow> f = g"
  by (simp add: series_sql_def)

text \<open>
  C10. For each of the three options of the frequency widget, \<open>freq_map\<close> gives one of
  \<open>D\<close>, \<open>W\<close>, \<open>M\<close>, and the call of the script sends the statement whose \<open>DATE_TRUNC\<close>
  field is that letter: the text sent is one of three fixed texts, which differ from each
  other, and the label itself does not reach it.
\<close>

theorem granularity_field_closed:
  assumes "freq \<in> set freq_options" and "reachable db"
  shows "\<exists>f. freq_map freq = Some f \<and> f \<in> {''D'', ''W'', ''M''} \<and>
           issued (snd (load_selected ticker data_ini data_fim freq db)) =
             issued db @
               [(series_sql f,
                 [(''t'', PText ticker), (''ini'', PDate data_ini), (''fim'', PDate data_fim)])] \<and>
           field_of (series_sql f) = Some f \<and>
           series_sql f \<in> {series_sql ''D'', series_sql ''W'', series_sql ''M''} \<and>
           distinct [series_sql ''D'', series_sql ''W'', series_sql ''M'']"
proof -
  from freq_map_options [OF assms(1)] obtain f where
    f: "freq_map freq = Some f" "f = ''D'' \<or> f = ''W'' \<or> f = ''M''"
    by blast
  have "issued (snd (load_selected ticker data_ini data_fim freq db)) =
          issued db @
            [(series_sql f,
              [(''t'', PText ticker), (''ini'', PDate data_ini), (''fim'', PDate data_fim)])]"
    using f(1) assms(2) by (simp add: load_selected_def load_data_issued)
  moreover have "distinct [series_sql ''D'', series_sql ''W'', series_sql ''M'']"
    by (auto dest: series_sql_inj)
  ultimately show ?thesis
    using f by (auto simp: field_of_series_sql)
qed

theorem granularity_field_closed_witness:
  "''Mensal'' \<in> set freq_options \<and> reachable store_two_days \<and>
   freq_map ''Mensal'' = Some ''M'' \<and>
   issued (snd (load_selected ''PETR4'' (2024, 1, 1) (2024, 1, 31) ''Mensal'' store_two_days)) =
     [(series_sql ''M'',
       [(''t'', PText ''PETR4''), (''ini'', PDate (2024, 1, 1)), (''fim'', PDate (2024, 1, 31))])]"
proof -
  have a: "''Mensal'' \<in> set freq_options"
    by (simp add: freq_options_def)
  have b: "reachable store_two_days" and c: "issued store_two_days = []"
    by (simp_all add: store_two_days_def)
  have d: "freq_map ''Mensal'' = Some ''M''"
    by (simp add: freq_map_def)
  show ?thesis
    using a b c d granularity_field_closed [OF a b, of "''PETR4''" "(2024, 1, 1)" "(2024, 1, 31)"]
    by auto
qed

subsection \<open>The catalog queries\<close>

lemma dropna_map_Some: "dropna (map Some xs) = xs"
  by (induction xs) (simp_all add: dropna_def List.map_filter_simps)

lemma unique_distinct: "distinct xs \<Longrightarrow> unique xs = xs"
  by (simp add: unique_def distinct_remdups_id)

lemma remdups_map_Some: "remdups (map Some xs) = map Some (remdups xs)"
  by (induction xs) auto

lemma order_by_asc_map_Some: "order_by_asc (map Some xs) = map Some (sort xs)"
  by (simp add: order_by_asc_def dropna_map_Some filter_empty_conv)

lemma matched_column:
  "map (\<lambda>r. regexp_match_1 (codneg r)) (filter (\<lambda>r. matches_ticker (codneg r)) rows) =
     map Some (map (\<lambda>r. take 5 (codneg r)) (filter (\<lambda>r. matches_ticker (codneg r)) rows))"
  by (induction rows) (simp_all add: regexp_match_1_def)

lemma run_lista_eq:
  "run_lista (lista_sql, []) rows =
     Inr (map Some (sort (remdups (map (\<lambda>r. take 5 (codneg r))
                                    (filter (\<lambda>r. matches_ticker (codneg r)) rows)))))"
  unfolding run_lista_def matched_column remdups_map_Some order_by_asc_map_Some
  by simp

lemma lista_tickers_reachable:
  "reachable db \<Longrightarrow>
   lista_tickers db =
     (Inr (sort (remdups (map (\<lambda>r. take 5 (codneg r))
                           (filter (\<lambda>r. matches_ticker (codneg r)) (cotahist_hist db))))),
      db\<lparr>issued := issued db @ [(lista_sql, [])]\<rparr>)"
  by (simp add: lista_tickers_def read_sql_def run_lista_eq dropna_map_Some unique_distinct
      Let_def)

lemma matches_ticker_take5:
  "matches_ticker s \<Longrightarrow>
   length (take 5 s) = 5 \<and> list_all is_upper (take 4 (take 5 s)) \<and> is_digit (take 5 s ! 4)"
  by (simp add: matches_ticker_def min_def)

text \<open>
  C4. On a store that can be reached, \<open>lista_tickers\<close> returns a list that is sorted in
  ascending lexicographic order and has no duplicates; the column the statement returns
  holds these entries and no NULL; and every entry is five characters long, four capital
  letters and a digit, and is the start of a code of the table that matches the pattern.
\<close>

theorem lista_tickers_sorted_distinct:
  assumes "reachable db"
  shows "\<exists>ts. fst (lista_tickers db) = Inr ts \<and>
           run_lista (lista_sql, []) (cotahist_hist db) = Inr (map Some ts) \<and>
           sorted ts \<and> distinct ts \<and>
           (\<forall>s \<in> set ts.
              length s = 5 \<and> list_all is_upper (take 4 s) \<and> is_digit (s ! 4) \<and>
              (\<exists>r \<in> set (cotahist_hist db). matches_ticker (codneg r) \<and> s = take 5 (codneg r)))"
proof -
  let ?ts = "sort (remdups (map (\<lambda>r. take 5 (codneg r))
                (filter (\<lambda>r. matches_ticker (codneg r)) (cotahist_hist db))))"
  have 1: "fst (lista_tickers db) = Inr ?ts"
    using assms by (simp add: lista_tickers_reachable)
  have 2: "run_lista (lista_sql, []) (cotahist_hist db) = Inr (map Some ?ts)"
    by (rule run_lista_eq)
  have 3: "sorted ?ts" and 4: "distinct ?ts"
    by simp_all
  have 5: "length s = 5 \<and> list_all is_upper (take 4 s) \<and> is_digit (s ! 4) \<and>
           (\<exists>r \<in> set (cotahist_hist db). matches_ticker (codneg r) \<and> s = take 5 (codneg r))"
    if "s \<in> set ?ts" for s
  proof -
    from that obtain r where r: "r \<in> set (cotahist_hist db)" "matches_ticker (codneg r)"
      "s = take 5 (codneg r)"
      by auto
    then show ?thesis
      using matches_ticker_take5 [of "codneg r"] by auto
  qed
  show ?thesis
    using 1 2 3 4 5 by blast
qed

theorem lista_tickers_witness:
  "reachable store_mixed \<and>
   fst (lista_tickers store_mixed) = Inr [''ABEV3'', ''ITUB4'', ''PETR4'', ''VALE3''] \<and>
   sorted [''ABEV3'', ''ITUB4'', ''PETR4'', ''VALE3''] \<and>
   distinct [''ABEV3'', ''ITUB4'', ''PETR4'', ''VALE3'']"
proof -
  have a: "reachable store_mixed"
    by (simp add: store_mixed_def)
  have b: "fst (lista_tickers store_mixed) = Inr [''ABEV3'', ''ITUB4'', ''PETR4'', ''VALE3'']"
    by code_simp
  from lista_tickers_sorted_distinct [OF a] b
  have "sorted [''ABEV3'', ''ITUB4'', ''PETR4'', ''VALE3''] \<and>
        distinct [''ABEV3'', ''ITUB4'', ''PETR4'', ''VALE3'']"
    by auto
  with a b show ?thesis
    by simp
qed

lemma fold_min_Min: "fold min ds (d::date) = Min (set (d # ds))"
  using Min.set_eq_fold [of d ds] by simp

lemma fold_max_Max: "fold max ds (d::date) = Max (set (d # ds))"
  using Max.set_eq_fold [of d ds] by simp

lemma sql_min_eq: "sql_min ds = (if ds = [] then None else Some (Min (set ds)))"
  by (cases ds) (simp_all add: fold_min_Min)

lemma sql_max_eq: "sql_max ds = (if ds = [] then None else Some (Max (set ds)))"
  by (cases ds) (simp_all add: fold_max_Max)

lemma get_date_bounds_reachable:
  "reachable db \<Longrightarrow>
   get_date_bounds db =
     (Inr (sql_min (map data_operacao (cotahist_hist db)),
           sql_max (map data_operacao (cotahist_hist db))),
      db\<lparr>issued := issued db @ [(bounds_sql, [])]\<rparr>)"
  by (simp add: get_date_bounds_def read_sql_def run_bounds_def)

text \<open>
  C2. The claim is that \<open>get_date_bounds\<close> fails with an EmptyDatasetError on a table
  without rows. The function has no such case: on a store that can be reached it returns
  the pair of nulls when the table has no rows, and otherwise the least and the greatest
  trade date, the first of which is not after the second.
\<close>

theorem get_date_bounds_null_or_ordered:
  assumes "reachable db"
  shows "fst (get_date_bounds db) =
           (if cotahist_hist db = [] then Inr (None, None)
            else Inr (Some (Min (data_operacao ` set (cotahist_hist db))),
                      Some (Max (data_operacao ` set (cotahist_hist db)))))
         \<and> (cotahist_hist db \<noteq> [] \<longrightarrow>
              Min (data_operacao ` set (cotahist_hist db))
                \<le> Max (data_operacao ` set (cotahist_hist db)))"
proof -
  have "Min (data_operacao ` set (cotahist_hist db)) \<le> Max (data_operacao ` set (cotahist_hist db))"
    if "cotahist_hist db \<noteq> []"
  proof -
    from that obtain r where r: "r \<in> set (cotahist_hist db)"
      by (cases "cotahist_hist db") auto
    let ?A = "data_operacao ` set (cotahist_hist db)"
    have "Min ?A \<le> data_operacao r" and "data_operacao r \<le> Max ?A"
      using r by simp_all
    then show ?thesis
      by (rule order_trans)
  qed
  then show ?thesis
    using assms by (simp add: get_date_bounds_reachable sql_min_eq sql_max_eq)
qed

theorem get_date_bounds_witness:
  "reachable store_two_days \<and> cotahist_hist store_two_days \<noteq> [] \<and>
   fst (get_date_bounds store_two_days) = Inr (Some (2024, 1, 2), Some (2024, 1, 3)) \<and>
   ((2024, 1, 2) :: date) \<le> (2024, 1, 3)"
proof -
  have a: "reachable store_two_days"
    by (simp add: store_two_days_def)
  have b: "data_operacao ` set (cotahist_hist store_two_days) = {(2024, 1, 2), (2024, 1, 3)}"
    by (simp add: store_two_days_def two_days_def)
  show ?thesis
    using a get_date_bounds_null_or_ordered [OF a] unfolding b
    by (simp add: store_two_days_def two_days_def less_eq_prod_def)
qed

text \<open>On the table without rows the call returns the pair of nulls, and raises nothing.\<close>

theorem get_date_bounds_empty_table:
  "get_date_bounds store_empty =
     (Inr (None, None), \<lparr>reachable = True, cotahist_hist = [], issued = [(bounds_sql, [])]\<rparr>)"
  by (simp add: get_date_bounds_reachable store_empty_def)

subsection \<open>The date formatter and the chart\<close>

lemma py_index_in_range:
  "1 \<le> m \<Longrightarrow> m \<le> length xs \<Longrightarrow> py_index xs (int m - 1) = Inr (xs ! (m - 1))"
  by (auto simp: py_index_def nat_diff_distrib')

lemma length_meses: "length meses = 12"
  by (simp add: meses_def)

lemma distinct_meses: "distinct meses"
  by (simp add: meses_def)

lemma formatar_data_ptbr_valid:
  "1 \<le> month dt \<Longrightarrow> month dt \<le> 12 \<Longrightarrow>
   formatar_data_ptbr dt =
     Inr (str_nat (day dt) @ '', '' @ meses ! (month dt - 1) @ '', '' @ str_nat (year dt))"
  by (simp add: formatar_data_ptbr_def py_index_in_range length_meses)

lemma valid_date_month: "valid_date dt \<Longrightarrow> 1 \<le> month dt \<and> month dt \<le> 12"
  by (simp add: valid_date_def)

text \<open>\<open>str_nat\<close> writes the decimal digits of its argument: reading them gives it back.\<close>

lemma str_nat_decimal: "foldl (\<lambda>a c. 10 * a + (of_char c - 48)) 0 (str_nat n) = n"
proof (induction n rule: str_nat.induct)
  case (1 n)
  show ?case
  proof (cases "n < 10")
    case True
    then show ?thesis
      by (subst str_nat.simps) (simp add: digit_char_def)
  next
    case False
    with 1 show ?thesis
      by (subst str_nat.simps) (simp add: digit_char_def)
  qed
qed

lemma build_chart_valid:
  assumes "valid_date data_ini" and "valid_date data_fim"
  shows "\<exists>titulo. titulo_formatado ticker freq data_ini data_fim = Inr titulo \<and>
     build_chart df ticker freq data_ini data_fim =
       Inr (update_yaxes ''tozero'' True
             (update_layout titulo
               (add_trace
                 (Bar (map df_data_operacao df) (map (\<lambda>p. of_int (df_volume p)) df)
                    ''Volume'' ''lightgray'' (4 / 10) ''legendonly'')
                 True
                 (add_trace
                   (Scattergl (map df_data_operacao df) (map df_preco df)
                      (''Pre'' @ [CHR 0xE7] @ ''o (R$)'') ''#1f77b4'')
                   False make_subplots))))"
proof -
  have "1 \<le> month data_ini" "month data_ini \<le> 12" "1 \<le> month data_fim" "month data_fim \<le> 12"
    using valid_date_month [OF assms(1)] valid_date_month [OF assms(2)] by simp_all
  then have "formatar_data_ptbr data_ini =
               Inr (str_nat (day data_ini) @ '', '' @ meses ! (month data_ini - 1) @ '', '' @
                    str_nat (year data_ini))"
    and "formatar_data_ptbr data_fim =
               Inr (str_nat (day data_fim) @ '', '' @ meses ! (month data_fim - 1) @ '', '' @
                    str_nat (year data_fim))"
    by (simp_all add: formatar_data_ptbr_valid)
  then show ?thesis
    by (simp add: build_chart_def titulo_formatado_def Let_def)
qed

lemma build_chart_title:
  assumes "build_chart df ticker freq data_ini data_fim = Inr fig"
  shows "titulo_formatado ticker freq data_ini data_fim = Inr titulo \<longleftrightarrow>
         title (fig_layout fig) = Some titulo"
  using assms
  by (auto simp: build_chart_def Let_def update_yaxes_def update_layout_def split: sum.splits)

text \<open>
  C8. For every date (a month from 1 to 12), \<open>formatar_data_ptbr\<close> returns the day, the
  name at the month's place in the table \<open>meses\<close>, and the year, separated by a comma and a
  space; the table has twelve entries, all different; and the chart construction returns a
  figure whose title is the ticker, the label of the frequency and the two formatted
  dates, joined by \<open>|\<close> and \<open>-\<close>, which is the string \<open>titulo_formatado\<close>. The formatter has
  no argument but the date.
\<close>

theorem formatar_data_ptbr_day_month_year:
  assumes "valid_date data_ini" and "valid_date data_fim"
  shows "formatar_data_ptbr data_ini =
           Inr (str_nat (day data_ini) @ '', '' @ meses ! (month data_ini - 1) @ '', '' @
                str_nat (year data_ini)) \<and>
         length meses = 12 \<and> distinct meses \<and>
         titulo_formatado ticker freq data_ini data_fim =
           Inr (ticker @ '' | '' @ freq @ '' | '' @
                (str_nat (day data_ini) @ '', '' @ meses ! (month data_ini - 1) @ '', '' @
                 str_nat (year data_ini)) @ '' - '' @
                (str_nat (day data_fim) @ '', '' @ meses ! (month data_fim - 1) @ '', '' @
                 str_nat (year data_fim))) \<and>
         (\<exists>fig. build_chart df ticker freq data_ini data_fim = Inr fig \<and>
            title (fig_layout fig) =
              Some (ticker @ '' | '' @ freq @ '' | '' @
                (str_nat (day data_ini) @ '', '' @ meses ! (month data_ini - 1) @ '', '' @
                 str_nat (year data_ini)) @ '' - '' @
                (str_nat (day data_fim) @ '', '' @ meses ! (month data_fim - 1) @ '', '' @
                 str_nat (year data_fim))))"
proof -
  have ini: "formatar_data_ptbr data_ini =
           Inr (str_nat (day data_ini) @ '', '' @ meses ! (month data_ini - 1) @ '', '' @
                str_nat (year data_ini))"
    using valid_date_month [OF assms(1)] by (intro formatar_data_ptbr_valid) simp_all
  have fim: "formatar_data_ptbr data_fim =
           Inr (str_nat (day data_fim) @ '', '' @ meses ! (month data_fim - 1) @ '', '' @
                str_nat (year data_fim))"
    using valid_date_month [OF assms(2)] by (intro formatar_data_ptbr_valid) simp_all
  have tit: "titulo_formatado ticker freq data_ini data_fim =
           Inr (ticker @ '' | '' @ freq @ '' | '' @
                (str_nat (day data_ini) @ '', '' @ meses ! (month data_ini - 1) @ '', '' @
                 str_nat (year data_ini)) @ '' - '' @
                (str_nat (day data_fim) @ '', '' @ meses ! (month data_fim - 1) @ '', '' @
                 str_nat (year data_fim)))"
    unfolding titulo_formatado_def ini fim by simp
  from build_chart_valid [OF assms, of ticker freq df]
  obtain fig where fig: "build_chart df ticker freq data_ini data_fim = Inr fig"
    by blast
  have "title (fig_layout fig) =
          Some (ticker @ '' | '' @ freq @ '' | '' @
                (str_nat (day data_ini) @ '', '' @ meses ! (month data_ini - 1) @ '', '' @
                 str_nat (year data_ini)) @ '' - '' @
                (str_nat (day data_fim) @ '', '' @ meses ! (month data_fim - 1) @ '', '' @
                 str_nat (year data_fim)))"
    using build_chart_title [OF fig] tit by blast
  with fig have "\<exists>fig. build_chart df ticker freq data_ini data_fim = Inr fig \<and>
            title (fig_layout fig) =
              Some (ticker @ '' | '' @ freq @ '' | '' @
                (str_nat (day data_ini) @ '', '' @ meses ! (month data_ini - 1) @ '', '' @
                 str_nat (year data_ini)) @ '' - '' @
                (str_nat (day data_fim) @ '', '' @ meses ! (month data_fim - 1) @ '', '' @
                 str_nat (year data_fim)))"
    by blast
  then show ?thesis
    using ini tit length_meses distinct_meses by blast
qed

theorem formatar_data_ptbr_witness:
  "valid_date (2025, 7, 16) \<and> valid_date (2025, 1, 16) \<and>
   formatar_data_ptbr (2025, 7, 16) = Inr ''16, Julho, 2025'' \<and>
   titulo_formatado ''PETR4'' ''Semanal'' (2025, 1, 16) (2025, 7, 16) =
     Inr ''PETR4 | Semanal | 16, Janeiro, 2025 - 16, Julho, 2025'' \<and>
   (\<exists>fig. build_chart [] ''PETR4'' ''Semanal'' (2025, 1, 16) (2025, 7, 16) = Inr fig \<and>
      title (fig_layout fig) = Some ''PETR4 | Semanal | 16, Janeiro, 2025 - 16, Julho, 2025'')"
proof -
  have a: "valid_date (2025, 7, 16)" and b: "valid_date (2025, 1, 16)"
    by code_simp+
  have c: "str_nat 16 = ''16''" "str_nat 2025 = ''2025''"
    by code_simp+
  have d: "meses ! 6 = ''Julho''" "meses ! 0 = ''Janeiro''"
    by (simp_all add: meses_def)
  show ?thesis
    using a b formatar_data_ptbr_day_month_year [OF a a, of "''PETR4''" "''Semanal''" "[]"]
      formatar_data_ptbr_day_month_year [OF b a, of "''PETR4''" "''Semanal''" "[]"]
    by (simp add: c d)
qed


lemma render_valid:
  assumes "build_chart df ticker freq data_ini data_fim = Inr fig"
    and "formatar_data_ptbr now = Inr a"
  shows "render now df ticker freq data_ini data_fim =
           Inr \<lparr>chart = fig, caption = ''Fonte: Banco de dados | Atualizado em '' @ a\<rparr>"
  using assms by (simp add: render_def)








text \<open>
  C6. The figure does not depend on the time of the run: two runs on the same DataFrame
  and the same selections, at any two times, show the same figure, which is the value of
  \<open>build_chart\<close> on these inputs; only the caption is made from the time.
\<close>

theorem chart_independent_of_clock:
  assumes "render now1 df ticker freq data_ini data_fim = Inr p1"
    and "render now2 df ticker freq data_ini data_fim = Inr p2"
  shows "chart p1 = chart p2 \<and> build_chart df ticker freq data_ini data_fim = Inr (chart p1)"
  using assms by (auto simp: render_def split: sum.splits)

theorem chart_independent_of_clock_witness:
  "\<exists>fig. render (2026, 11, 3) [] ''PETR4'' ''Semanal'' (2024, 1, 1) (2024, 1, 31) =
      Inr \<lparr>chart = fig, caption = ''Fonte: Banco de dados | Atualizado em 3, Novembro, 2026''\<rparr> \<and>
    render (2026, 11, 4) [] ''PETR4'' ''Semanal'' (2024, 1, 1) (2024, 1, 31) =
      Inr \<lparr>chart = fig, caption = ''Fonte: Banco de dados | Atualizado em 4, Novembro, 2026''\<rparr>"
proof -
  have v: "valid_date (2024, 1, 1)" "valid_date (2024, 1, 31)"
    by code_simp+
  from build_chart_valid [OF v, of "''PETR4''" "''Semanal''" "[]"]
  obtain fig where fig: "build_chart [] ''PETR4'' ''Semanal'' (2024, 1, 1) (2024, 1, 31) = Inr fig"
    by blast
  have a: "formatar_data_ptbr (2026, 11, 3) = Inr ''3, Novembro, 2026''"
    and b: "formatar_data_ptbr (2026, 11, 4) = Inr ''4, Novembro, 2026''"
    by code_simp+
  note r1 = render_valid [OF fig a] and r2 = render_valid [OF fig b]
  from chart_independent_of_clock [OF r1 r2] r1 r2 show ?thesis
    by auto
qed

text \<open>
  C7. When no row of the table is of the ticker and inside the window, the call of
  \<open>load_data\<close> (on a store that can be reached, with one of the three fields of the script)
  returns the empty DataFrame and no error, and the chart construction on the empty
  DataFrame returns a figure whose two traces have no points.
\<close>

theorem empty_series_empty_chart:
  assumes "reachable db" and "freq \<in> {''D'', ''W'', ''M''}"
    and "selected t ini fim (cotahist_hist db) = []"
    and "valid_date ini" and "valid_date fim"
  shows "fst (load_data t ini fim freq db) = Inr [] \<and>
         (\<exists>fig. build_chart [] t label ini fim = Inr fig \<and>
                map trace_x (fig_data fig) = [[], []] \<and>
                map trace_y (fig_data fig) = [[], []])"
proof -
  from script_fields [OF assms(2)] obtain u where
    u: "list_all is_word_char freq" "decode_units freq = Some u"
    by blast
  have 1: "fst (load_data t ini fim freq db) = Inr []"
    using assms(3) by (simp add: load_data_reachable [OF assms(1) u] series_query_no_rows)
  from build_chart_valid [OF assms(4,5), of t label "[]"]
  obtain fig where fig: "build_chart [] t label ini fim = Inr fig"
    and "map trace_x (fig_data fig) = [[], []]" and "map trace_y (fig_data fig) = [[], []]"
    by (auto simp: update_yaxes_def update_layout_def add_trace_def Bar_def Scattergl_def
        make_subplots_def)
  with 1 show ?thesis
    by auto
qed

theorem empty_series_empty_chart_witness:
  "reachable store_two_days \<and> ''W'' \<in> {''D'', ''W'', ''M''} \<and>
   selected ''VALE3'' (2024, 1, 1) (2024, 1, 31) (cotahist_hist store_two_days) = [] \<and>
   valid_date (2024, 1, 1) \<and> valid_date (2024, 1, 31) \<and>
   fst (load_data ''VALE3'' (2024, 1, 1) (2024, 1, 31) ''W'' store_two_days) = Inr [] \<and>
   (\<exists>fig. build_chart [] ''VALE3'' ''Semanal'' (2024, 1, 1) (2024, 1, 31) = Inr fig \<and>
          map trace_x (fig_data fig) = [[], []] \<and> map trace_y (fig_data fig) = [[], []])"
proof -
  have a: "reachable store_two_days"
    by (simp add: store_two_days_def)
  have b: "''W'' \<in> {''D'', ''W'', ''M''}"
    by simp
  have c: "selected ''VALE3'' (2024, 1, 1) (2024, 1, 31) (cotahist_hist store_two_days) = []"
    by (simp add: selected_def store_two_days_def two_days_def)
  have d: "valid_date (2024, 1, 1)" and e: "valid_date (2024, 1, 31)"
    by code_simp+
  show ?thesis
    using a b c d e empty_series_empty_chart [OF a b c d e, of "''Semanal''"]
    by simp
qed

end
